theory Spec2Isabelle
  imports Complex_Main "HOL-Library.Monad_Syntax"
begin

section \<open>Data model\<close>

text \<open>
  The structs \<^verbatim>\<open>PointCloud\<close>, \<^verbatim>\<open>Voxel\<close>, \<^verbatim>\<open>Tetrahedron\<close> and \<^verbatim>\<open>Triangle\<close> are declared in
  \<^verbatim>\<open>include.h\<close>; their fields are the ones \<^verbatim>\<open>marching_tetrahedrons.h\<close> and \<^verbatim>\<open>main.cpp\<close> use:
  \<^verbatim>\<open>vertices\<close> (a \<^verbatim>\<open>std::vector<cv::Point3f>\<close>) and \<^verbatim>\<open>density\<close> (a \<^verbatim>\<open>std::vector<float>\<close>).
  A \<^verbatim>\<open>std::vector\<close> is a list. A \<^verbatim>\<open>float\<close> is modelled as a \<^typ>\<open>real\<close>: rounding and
  overflow are outside the model, and the one place where real arithmetic has no value
  for what the code computes, the division in \<^verbatim>\<open>interpolation\<close>, is a branch of its own.
  The theorems below therefore use of an arithmetic result only which expression it is the
  value of, whether a division divides by zero, and its value on small dyadic inputs, on
  which binary32 arithmetic is exact; none of them is about the value of a rounded result.
\<close>

datatype Point3f = Point3f (pt_x: real) (pt_y: real) (pt_z: real)

record PointCloud =
  pc_vertices :: "Point3f list"
  pc_density :: "real list"

record Voxel =
  voxel_vertices :: "Point3f list"
  voxel_density :: "real list"

record Tetrahedron =
  tetra_vertices :: "Point3f list"
  tetra_density :: "real list"

text \<open>
  The vertices of a triangle are results of \<^verbatim>\<open>interpolation\<close>. \<open>None\<close> stands for the
  point with non-finite coordinates that a division by zero leaves there.
\<close>

record Triangle =
  tri_vertices :: "Point3f option list"

text \<open>
  \<^verbatim>\<open>v[i]\<close> on a \<^verbatim>\<open>std::vector\<close>: reading outside \<open>0 \<le> i < size\<close> is undefined behaviour,
  which the model makes the value \<open>None\<close>.
\<close>

definition vec_at :: "'a list \<Rightarrow> int \<Rightarrow> 'a option" where
  "vec_at v i = (if 0 \<le> i \<and> i < int (length v) then Some (v ! nat i) else None)"

section \<open>Interpolation\<close>

text \<open>
  \<^verbatim>\<open>float mu = (isovalue - pt1_density) / (pt2_density - pt1_density);\<close>
  With a zero divisor the float \<^verbatim>\<open>mu\<close> is an infinity or a NaN and so is every coordinate
  of the result: the model returns \<open>None\<close> there. The divisor is the difference of the
  two densities, and in binary32, as in the reals, the difference of two finite numbers is
  zero exactly when they are equal.
\<close>

definition interpolation :: "Point3f \<Rightarrow> Point3f \<Rightarrow> real \<Rightarrow> real \<Rightarrow> real \<Rightarrow> Point3f option" where
  "interpolation pt1 pt2 pt1_density pt2_density isovalue =
     (if pt2_density - pt1_density = 0 then None
      else
        let mu = (isovalue - pt1_density) / (pt2_density - pt1_density);
            inter_x = pt_x pt1 + mu * (pt_x pt2 - pt_x pt1);
            inter_y = pt_y pt1 + mu * (pt_y pt2 - pt_y pt1);
            inter_z = pt_z pt1 + mu * (pt_z pt2 - pt_z pt1)
        in Some (Point3f inter_x inter_y inter_z))"

section \<open>Voxel builder\<close>

text \<open>
  \<^verbatim>\<open>std::find(first, last, value)\<close> as the offset of the iterator it returns from \<^verbatim>\<open>first\<close>:
  the index of the first element equal to the value, the length of the list when there
  is none (the iterator \<^verbatim>\<open>last\<close>).
\<close>

primrec std_find :: "'a list \<Rightarrow> 'a \<Rightarrow> nat" where
  "std_find [] value = 0"
| "std_find (x # xs) value = (if x = value then 0 else Suc (std_find xs value))"

text \<open>
  The body of the loop of \<^verbatim>\<open>init_voxel_vertices\<close>: the density pushed for one vertex.
  \<^verbatim>\<open>idx\<close> is an \<^verbatim>\<open>int\<close> and the element read is \<^verbatim>\<open>pointcloud.density[idx - 1]\<close>.
\<close>

definition density_index :: "PointCloud \<Rightarrow> Point3f \<Rightarrow> int option" where
  "density_index pointcloud vertex =
     (let it = std_find (pc_vertices pointcloud) vertex
      in if it = length (pc_vertices pointcloud) then None
         else let idx = int it in Some (idx - 1))"

definition vertex_density :: "PointCloud \<Rightarrow> Point3f \<Rightarrow> real option" where
  "vertex_density pointcloud vertex =
     (case density_index pointcloud vertex of
        None \<Rightarrow> Some 1
      | Some j \<Rightarrow> vec_at (pc_density pointcloud) j)"

function density_loop :: "PointCloud \<Rightarrow> Voxel \<Rightarrow> nat \<Rightarrow> Voxel option" where
  "density_loop pointcloud voxel i =
     (if i < length (voxel_vertices voxel) then
        (case vertex_density pointcloud (voxel_vertices voxel ! i) of
           None \<Rightarrow> None
         | Some d \<Rightarrow>
             density_loop pointcloud (voxel\<lparr>voxel_density := voxel_density voxel @ [d]\<rparr>) (i + 1))
      else Some voxel)"
  by pat_completeness auto
termination
  by (relation "measure (\<lambda>(pointcloud, voxel, i). length (voxel_vertices voxel) - i)") auto

definition init_voxel_vertices ::
  "PointCloud \<Rightarrow> Voxel \<Rightarrow> real \<Rightarrow> real \<Rightarrow> real \<Rightarrow> real \<Rightarrow> real \<Rightarrow> real \<Rightarrow> Voxel option" where
  "init_voxel_vertices pointcloud voxel cur_x cur_y cur_z diff_x diff_y diff_z =
     (let v0 = Point3f cur_x cur_y cur_z;
          v1 = Point3f (cur_x + diff_x) cur_y cur_z;
          v2 = Point3f (cur_x + diff_x) cur_y (cur_z + diff_z);
          v3 = Point3f cur_x cur_y (cur_z + diff_z);
          v4 = Point3f cur_x (cur_y + diff_y) cur_z;
          v5 = Point3f (cur_x + diff_x) (cur_y + diff_y) cur_z;
          v6 = Point3f (cur_x + diff_x) (cur_y + diff_y) (cur_z + diff_z);
          v7 = Point3f cur_x (cur_y + diff_y) (cur_z + diff_z);
          voxel = voxel\<lparr>voxel_vertices := voxel_vertices voxel @ [v0, v1, v2, v3, v4, v5, v6, v7]\<rparr>
      in density_loop pointcloud voxel 0)"

section \<open>Tetrahedral decomposer\<close>

text \<open>
  One block of \<^verbatim>\<open>divide_into_six_triangles\<close>: a fresh \<^verbatim>\<open>Tetrahedron\<close>, then four pairs of
  \<^verbatim>\<open>push_back(cur_voxel.vertices[i])\<close>, \<^verbatim>\<open>push_back(cur_voxel.density[i])\<close>.
\<close>

definition tetra_block :: "Voxel \<Rightarrow> int \<Rightarrow> int \<Rightarrow> int \<Rightarrow> int \<Rightarrow> Tetrahedron option" where
  "tetra_block cur_voxel i0 i1 i2 i3 =
     do {
       a0 \<leftarrow> vec_at (voxel_vertices cur_voxel) i0;
       d0 \<leftarrow> vec_at (voxel_density cur_voxel) i0;
       a1 \<leftarrow> vec_at (voxel_vertices cur_voxel) i1;
       d1 \<leftarrow> vec_at (voxel_density cur_voxel) i1;
       a2 \<leftarrow> vec_at (voxel_vertices cur_voxel) i2;
       d2 \<leftarrow> vec_at (voxel_density cur_voxel) i2;
       a3 \<leftarrow> vec_at (voxel_vertices cur_voxel) i3;
       d3 \<leftarrow> vec_at (voxel_density cur_voxel) i3;
       Some \<lparr>tetra_vertices = [a0, a1, a2, a3], tetra_density = [d0, d1, d2, d3]\<rparr>
     }"

text \<open>
  The function takes \<^verbatim>\<open>cur_six_tetrahedrons\<close> by value and returns nothing. The model
  returns the final value of that local vector; what the caller sees of it is modelled
  at the call, in \<open>cell_body\<close>.
\<close>

definition divide_into_six_triangles :: "Voxel \<Rightarrow> Tetrahedron list \<Rightarrow> Tetrahedron list option" where
  "divide_into_six_triangles cur_voxel cur_six_tetrahedrons =
     do {
       t1 \<leftarrow> tetra_block cur_voxel 3 7 4 5;
       t2 \<leftarrow> tetra_block cur_voxel 3 7 5 6;
       t3 \<leftarrow> tetra_block cur_voxel 3 5 4 0;
       t4 \<leftarrow> tetra_block cur_voxel 5 1 0 3;
       t5 \<leftarrow> tetra_block cur_voxel 5 1 3 2;
       t6 \<leftarrow> tetra_block cur_voxel 3 5 2 6;
       Some (cur_six_tetrahedrons @ [t1, t2, t3, t4, t5, t6])
     }"

section \<open>Case classifier\<close>

text \<open>
  The chain of \<^verbatim>\<open>if\<close> / \<^verbatim>\<open>else if\<close> of \<^verbatim>\<open>get_vertice_density\<close>, in the order of the source.
  The chain has no final \<^verbatim>\<open>else\<close>: \<open>None\<close> is the array left uninitialised.
\<close>

definition edges_rule :: "bool \<Rightarrow> bool \<Rightarrow> bool \<Rightarrow> bool \<Rightarrow> int list option" where
  "edges_rule p0_value p1_value p2_value p3_value =
     (if p0_value = False \<and> p1_value = False \<and> p2_value = False \<and> p3_value = False
        then Some [0, 0, 0, 0, 0, 0]
      else if p0_value = False \<and> p1_value = False \<and> p2_value = False \<and> p3_value = True
        then Some [0, 0, 1, 0, 1, 1]
      else if p0_value = False \<and> p1_value = False \<and> p2_value = True \<and> p3_value = False
        then Some [0, 1, 0, 1, 1, 0]
      else if p0_value = False \<and> p1_value = False \<and> p2_value = True \<and> p3_value = True
        then Some [0, 1, 1, 1, 0, 1]
      else if p0_value = False \<and> p1_value = True \<and> p2_value = False \<and> p3_value = False
        then Some [1, 0, 0, 1, 0, 1]
      else if p0_value = False \<and> p1_value = True \<and> p2_value = False \<and> p3_value = True
        then Some [1, 0, 1, 1, 1, 0]
      else if p0_value = False \<and> p1_value = True \<and> p2_value = True \<and> p3_value = False
        then Some [1, 1, 0, 0, 1, 1]
      else if p0_value = False \<and> p1_value = True \<and> p2_value = True \<and> p3_value = True
        then Some [1, 1, 1, 0, 0, 0]
      else if p0_value = True \<and> p1_value = False \<and> p2_value = False \<and> p3_value = False
        then Some [1, 1, 1, 0, 0, 0]
      else if p0_value = True \<and> p1_value = False \<and> p2_value = False \<and> p3_value = True
        then Some [1, 1, 0, 0, 1, 1]
      else if p0_value = True \<and> p1_value = False \<and> p2_value = True \<and> p3_value = False
        then Some [1, 0, 1, 1, 1, 0]
      else if p0_value = True \<and> p1_value = False \<and> p2_value = True \<and> p3_value = True
        then Some [1, 0, 0, 1, 0, 1]
      else if p0_value = True \<and> p1_value = True \<and> p2_value = False \<and> p3_value = False
        then Some [0, 1, 1, 1, 0, 1]
      else if p0_value = True \<and> p1_value = True \<and> p2_value = False \<and> p3_value = True
        then Some [0, 1, 0, 1, 1, 0]
      else if p0_value = True \<and> p1_value = True \<and> p2_value = True \<and> p3_value = False
        then Some [0, 0, 1, 0, 1, 1]
      else if p0_value = True \<and> p1_value = True \<and> p2_value = True \<and> p3_value = True
        then Some [0, 0, 0, 0, 0, 0]
      else None)"

text \<open>
  The body of the loop of \<^verbatim>\<open>get_vertice_density\<close> for one tetrahedron; \<open>isovalue\<close> is the
  macro \<^verbatim>\<open>ISOVALUE\<close> of \<^verbatim>\<open>parameters.h\<close>, a parameter here.
\<close>

definition vertices_density :: "real \<Rightarrow> Tetrahedron \<Rightarrow> int list option" where
  "vertices_density isovalue cur_tetrahedron =
     do {
       d0 \<leftarrow> vec_at (tetra_density cur_tetrahedron) 0;
       d1 \<leftarrow> vec_at (tetra_density cur_tetrahedron) 1;
       d2 \<leftarrow> vec_at (tetra_density cur_tetrahedron) 2;
       d3 \<leftarrow> vec_at (tetra_density cur_tetrahedron) 3;
       let p0_value = (if d0 < isovalue then True else False);
       let p1_value = (if d1 < isovalue then True else False);
       let p2_value = (if d2 < isovalue then True else False);
       let p3_value = (if d3 < isovalue then True else False);
       edges_rule p0_value p1_value p2_value p3_value
     }"

function rule_loop :: "real \<Rightarrow> Tetrahedron list \<Rightarrow> int list list \<Rightarrow> nat \<Rightarrow> int list list option" where
  "rule_loop isovalue cur_six_tetrahedrons cur_six_edges_rule t =
     (if t < length cur_six_tetrahedrons then
        (case vertices_density isovalue (cur_six_tetrahedrons ! t) of
           None \<Rightarrow> None
         | Some m \<Rightarrow> rule_loop isovalue cur_six_tetrahedrons (cur_six_edges_rule @ [m]) (t + 1))
      else Some cur_six_edges_rule)"
  by pat_completeness auto
termination
  by (relation "measure (\<lambda>(isovalue, ts, rs, t). length ts - t)") auto

text \<open>By value again: the result is the final value of the local \<^verbatim>\<open>cur_six_edges_rule\<close>.\<close>

definition get_vertice_density :: "real \<Rightarrow> Tetrahedron list \<Rightarrow> int list list \<Rightarrow> int list list option" where
  "get_vertice_density isovalue cur_six_tetrahedrons cur_six_edges_rule =
     rule_loop isovalue cur_six_tetrahedrons cur_six_edges_rule 0"

text \<open>The table of section 4.3 of the specification, row by row, for comparison.\<close>

fun spec_case_table :: "bool \<Rightarrow> bool \<Rightarrow> bool \<Rightarrow> bool \<Rightarrow> int list" where
  "spec_case_table False False False False = [0, 0, 0, 0, 0, 0]"
| "spec_case_table False False False True  = [0, 0, 1, 0, 1, 1]"
| "spec_case_table False False True  False = [0, 1, 0, 1, 1, 0]"
| "spec_case_table False False True  True  = [0, 1, 1, 1, 0, 1]"
| "spec_case_table False True  False False = [1, 0, 0, 1, 0, 1]"
| "spec_case_table False True  False True  = [1, 0, 1, 1, 1, 0]"
| "spec_case_table False True  True  False = [1, 1, 0, 0, 1, 1]"
| "spec_case_table False True  True  True  = [1, 1, 1, 0, 0, 0]"
| "spec_case_table True  False False False = [1, 1, 1, 0, 0, 0]"
| "spec_case_table True  False False True  = [1, 1, 0, 0, 1, 1]"
| "spec_case_table True  False True  False = [1, 0, 1, 1, 1, 0]"
| "spec_case_table True  False True  True  = [1, 0, 0, 1, 0, 1]"
| "spec_case_table True  True  False False = [0, 1, 1, 1, 0, 1]"
| "spec_case_table True  True  False True  = [0, 1, 0, 1, 1, 0]"
| "spec_case_table True  True  True  False = [0, 0, 1, 0, 1, 1]"
| "spec_case_table True  True  True  True  = [0, 0, 0, 0, 0, 0]"

section \<open>Triangulator\<close>

text \<open>
  The six calls of \<^verbatim>\<open>interpolation\<close> at the head of the loop body of \<^verbatim>\<open>make_triangle\<close>, made
  before the mask is looked at: the points \<^verbatim>\<open>p01, p02, p03, p12, p23, p31\<close>, in this order.
\<close>

definition edge_points :: "real \<Rightarrow> Tetrahedron \<Rightarrow> Point3f option list option" where
  "edge_points isovalue cur_tetra =
     do {
       a0 \<leftarrow> vec_at (tetra_vertices cur_tetra) 0;
       a1 \<leftarrow> vec_at (tetra_vertices cur_tetra) 1;
       d0 \<leftarrow> vec_at (tetra_density cur_tetra) 0;
       d1 \<leftarrow> vec_at (tetra_density cur_tetra) 1;
       a2 \<leftarrow> vec_at (tetra_vertices cur_tetra) 2;
       d2 \<leftarrow> vec_at (tetra_density cur_tetra) 2;
       a3 \<leftarrow> vec_at (tetra_vertices cur_tetra) 3;
       d3 \<leftarrow> vec_at (tetra_density cur_tetra) 3;
       Some [interpolation a0 a1 d0 d1 isovalue,
             interpolation a0 a2 d0 d2 isovalue,
             interpolation a0 a3 d0 d3 isovalue,
             interpolation a1 a2 d1 d2 isovalue,
             interpolation a2 a3 d2 d3 isovalue,
             interpolation a3 a1 d3 d1 isovalue]
     }"

text \<open>
  The chain of \<^verbatim>\<open>if\<close> / \<^verbatim>\<open>else if\<close> on \<^verbatim>\<open>cur_six_edges_rule[t]\<close>: the triangles pushed for one
  tetrahedron. The first branch is the \<^verbatim>\<open>continue\<close>; a mask that matches no branch pushes
  nothing.
\<close>

definition emit_triangles ::
  "int list \<Rightarrow> Point3f option \<Rightarrow> Point3f option \<Rightarrow> Point3f option \<Rightarrow>
   Point3f option \<Rightarrow> Point3f option \<Rightarrow> Point3f option \<Rightarrow> Triangle list" where
  "emit_triangles rule p01 p02 p03 p12 p23 p31 =
     (if rule = [0, 0, 0, 0, 0, 0] then []
      else if rule = [0, 0, 1, 0, 1, 1] then [\<lparr>tri_vertices = [p03, p23, p31]\<rparr>]
      else if rule = [0, 1, 0, 1, 1, 0] then [\<lparr>tri_vertices = [p02, p12, p23]\<rparr>]
      else if rule = [0, 1, 1, 1, 0, 1]
        then [\<lparr>tri_vertices = [p02, p03, p31]\<rparr>, \<lparr>tri_vertices = [p02, p31, p12]\<rparr>]
      else if rule = [1, 0, 0, 1, 0, 1] then [\<lparr>tri_vertices = [p01, p12, p31]\<rparr>]
      else if rule = [1, 0, 1, 1, 1, 0]
        then [\<lparr>tri_vertices = [p01, p03, p23]\<rparr>, \<lparr>tri_vertices = [p01, p12, p23]\<rparr>]
      else if rule = [1, 1, 0, 0, 1, 1]
        then [\<lparr>tri_vertices = [p01, p02, p31]\<rparr>, \<lparr>tri_vertices = [p02, p23, p31]\<rparr>]
      else if rule = [1, 1, 1, 0, 0, 0] then [\<lparr>tri_vertices = [p01, p02, p03]\<rparr>]
      else [])"

definition tetra_triangles :: "real \<Rightarrow> Tetrahedron \<Rightarrow> int list list \<Rightarrow> nat \<Rightarrow> Triangle list option" where
  "tetra_triangles isovalue cur_tetra cur_six_edges_rule t =
     do {
       ps \<leftarrow> edge_points isovalue cur_tetra;
       rule \<leftarrow> vec_at cur_six_edges_rule (int t);
       Some (emit_triangles rule (ps ! 0) (ps ! 1) (ps ! 2) (ps ! 3) (ps ! 4) (ps ! 5))
     }"

function triangle_loop ::
  "real \<Rightarrow> Triangle list \<Rightarrow> Tetrahedron list \<Rightarrow> int list list \<Rightarrow> nat \<Rightarrow> Triangle list option" where
  "triangle_loop isovalue triangles cur_six_tetrahedrons cur_six_edges_rule t =
     (if t < length cur_six_tetrahedrons then
        (case tetra_triangles isovalue (cur_six_tetrahedrons ! t) cur_six_edges_rule t of
           None \<Rightarrow> None
         | Some new \<Rightarrow>
             triangle_loop isovalue (triangles @ new) cur_six_tetrahedrons cur_six_edges_rule (t + 1))
      else Some triangles)"
  by pat_completeness auto
termination
  by (relation "measure (\<lambda>(isovalue, tris, ts, rs, t). length ts - t)") auto

text \<open>By value again: the result is the final value of the local \<^verbatim>\<open>triangles\<close>.\<close>

definition make_triangle ::
  "real \<Rightarrow> Triangle list \<Rightarrow> Tetrahedron list \<Rightarrow> int list list \<Rightarrow> Triangle list option" where
  "make_triangle isovalue triangles cur_six_tetrahedrons cur_six_edges_rule =
     triangle_loop isovalue triangles cur_six_tetrahedrons cur_six_edges_rule 0"

section \<open>Cell traversal driver\<close>

text \<open>
  The body of the innermost loop of \<^verbatim>\<open>main\<close>. \<^verbatim>\<open>init_voxel_vertices\<close> takes the voxel by
  reference, so the caller's \<^verbatim>\<open>cur_voxel\<close> is the one it filled. The three other functions
  take their vectors by value: each works on a copy, and the caller's
  \<^verbatim>\<open>cur_six_tetrahedrons\<close>, \<^verbatim>\<open>cur_six_edges_rule\<close> and \<^verbatim>\<open>triangles\<close> are after the call what
  they were before it.
\<close>

definition cell_body ::
  "real \<Rightarrow> PointCloud \<Rightarrow> Triangle list \<Rightarrow> real \<Rightarrow> real \<Rightarrow> real \<Rightarrow> real \<Rightarrow> real \<Rightarrow> real \<Rightarrow>
   Triangle list option" where
  "cell_body isovalue pointcloud_with_density triangles x y z voxel_dx voxel_dy voxel_dz =
     do {
       cur_voxel \<leftarrow> init_voxel_vertices pointcloud_with_density
                      \<lparr>voxel_vertices = [], voxel_density = []\<rparr> x y z voxel_dx voxel_dy voxel_dz;
       let cur_six_tetrahedrons = [];
       _ \<leftarrow> divide_into_six_triangles cur_voxel cur_six_tetrahedrons;
       let cur_six_edges_rule = [];
       _ \<leftarrow> get_vertice_density isovalue cur_six_tetrahedrons cur_six_edges_rule;
       _ \<leftarrow> make_triangle isovalue triangles cur_six_tetrahedrons cur_six_edges_rule;
       Some triangles
     }"

text \<open>
  \<^verbatim>\<open>for (float v = start; v <= max_v; v += step) body\<close>, with the state the body works on
  passed along. A loop whose step is not positive need not end, so the loop is a partial
  function: \<open>None\<close> is a run that does not return (or whose body reads a vector out of
  range).
\<close>

partial_function (option) for_loop ::
  "(real \<Rightarrow> 's \<Rightarrow> 's option) \<Rightarrow> real \<Rightarrow> real \<Rightarrow> real \<Rightarrow> 's \<Rightarrow> 's option" where
  "for_loop body max_v step v s =
     (if v \<le> max_v then
        do {
          s' \<leftarrow> body v s;
          for_loop body max_v step (v + step) s'
        }
      else Some s)"

text \<open>
  The marching section of \<^verbatim>\<open>main\<close>: \<^verbatim>\<open>std::vector<Triangle> triangles;\<close> and the three nested
  loops, \<^verbatim>\<open>z\<close> outermost. The bounds come from \<^verbatim>\<open>find_min_pixel\<close> and \<^verbatim>\<open>find_max_pixel\<close> and
  the steps from \<^verbatim>\<open>cal_voxel_size\<close> (all of \<^verbatim>\<open>utility.h\<close>), parameters here. The result is the
  vector that \<^verbatim>\<open>main\<close> counts and hands to \<^verbatim>\<open>write_to_ply\<close>.
\<close>

definition main_marching ::
  "real \<Rightarrow> PointCloud \<Rightarrow> real \<Rightarrow> real \<Rightarrow> real \<Rightarrow> real \<Rightarrow> real \<Rightarrow> real \<Rightarrow> real \<Rightarrow> real \<Rightarrow> real \<Rightarrow>
   Triangle list option" where
  "main_marching isovalue pointcloud_with_density min_x min_y min_z max_x max_y max_z
      voxel_dx voxel_dy voxel_dz =
     (let triangles = []
      in for_loop (\<lambda>z.
           for_loop (\<lambda>y.
             for_loop (\<lambda>x triangles.
                 cell_body isovalue pointcloud_with_density triangles x y z
                   voxel_dx voxel_dy voxel_dz)
               max_x voxel_dx (min_x - voxel_dx))
             max_y voxel_dy (min_y - voxel_dy))
           max_z voxel_dz (min_z - voxel_dz) triangles)"

section \<open>Example inputs\<close>

text \<open>A field of one sample, which is therefore the first element.\<close>

definition pc_first :: PointCloud where
  "pc_first = \<lparr>pc_vertices = [Point3f 0 0 0], pc_density = [3 / 10]\<rparr>"

text \<open>A field whose second sample is the origin; the first sample is on no cell corner.\<close>

definition pc_second :: PointCloud where
  "pc_second = \<lparr>pc_vertices = [Point3f 5 5 5, Point3f 0 0 0], pc_density = [9 / 10, 1 / 10]\<rparr>"

text \<open>
  A field with bounding box \<open>[0, 1/2]\<^sup>3\<close>: both samples have density 0, and only the second
  one, the origin, is a corner of the cells of step 1.
\<close>

definition pc_corner :: PointCloud where
  "pc_corner = \<lparr>pc_vertices = [Point3f (1 / 2) (1 / 2) (1 / 2), Point3f 0 0 0],
                 pc_density = [0, 0]\<rparr>"

text \<open>The unit voxel at the origin with \<open>v0\<close> below the isovalue \<open>1/2\<close> and the others above.\<close>

definition voxel_corner :: Voxel where
  "voxel_corner = \<lparr>voxel_vertices =
       [Point3f 0 0 0, Point3f 1 0 0, Point3f 1 0 1, Point3f 0 0 1,
        Point3f 0 1 0, Point3f 1 1 0, Point3f 1 1 1, Point3f 0 1 1],
     voxel_density = [0, 1, 1, 1, 1, 1, 1, 1]\<rparr>"

text \<open>Two tetrahedra on the same four points, with \<open>p0\<close> below the isovalue \<open>1/2\<close>.\<close>

definition tetra_inner :: Tetrahedron where
  "tetra_inner = \<lparr>tetra_vertices = [Point3f 0 0 0, Point3f 1 0 0, Point3f 0 1 0, Point3f 0 0 1],
                   tetra_density = [0, 1, 1, 1]\<rparr>"

definition tetra_touch :: Tetrahedron where
  "tetra_touch = \<lparr>tetra_vertices = [Point3f 0 0 0, Point3f 1 0 0, Point3f 0 1 0, Point3f 0 0 1],
                   tetra_density = [0, 1 / 2, 1, 1]\<rparr>"

section \<open>Auxiliary facts\<close>

declare density_loop.simps [simp del] rule_loop.simps [simp del] triangle_loop.simps [simp del]

lemma those_map_Some:
  "(\<And>x. x \<in> set xs \<Longrightarrow> f x = Some (g x)) \<Longrightarrow> those (map f xs) = Some (map g xs)"
  by (induction xs) auto

lemma those_length: "those xs = Some ys \<Longrightarrow> length ys = length xs"
  by (induction xs arbitrary: ys) (auto split: option.splits)


lemma length8:
  assumes "length ds = 8"
  obtains d0 d1 d2 d3 d4 d5 d6 d7 where "ds = [d0, d1, d2, d3, d4, d5, d6, d7]"
  using assms by (auto simp: eval_nat_numeral length_Suc_conv)

subsection \<open>The loops, as maps over the vector they walk\<close>

lemma density_loop_those:
  "density_loop pointcloud voxel i =
     map_option (\<lambda>ds. voxel\<lparr>voxel_density := voxel_density voxel @ ds\<rparr>)
       (those (map (vertex_density pointcloud) (drop i (voxel_vertices voxel))))"
proof (induction pointcloud voxel i rule: density_loop.induct)
  case (1 pointcloud voxel i)
  show ?case
  proof (cases "i < length (voxel_vertices voxel)")
    case False
    then show ?thesis by (simp add: density_loop.simps)
  next
    case True
    then have d: "drop i (voxel_vertices voxel) =
        voxel_vertices voxel ! i # drop (Suc i) (voxel_vertices voxel)"
      by (simp add: Cons_nth_drop_Suc)
    show ?thesis
    proof (cases "vertex_density pointcloud (voxel_vertices voxel ! i)")
      case None
      with True d show ?thesis by (simp add: density_loop.simps)
    next
      case (Some m)
      with True d "1.IH" [OF True Some] show ?thesis
        by (subst density_loop.simps) (simp add: option.map_comp comp_def split: option.splits)
    qed
  qed
qed

lemma rule_loop_those:
  "rule_loop isovalue ts rs t =
     map_option (\<lambda>ms. rs @ ms) (those (map (vertices_density isovalue) (drop t ts)))"
proof (induction isovalue ts rs t rule: rule_loop.induct)
  case (1 isovalue ts rs t)
  show ?case
  proof (cases "t < length ts")
    case False
    then show ?thesis by (simp add: rule_loop.simps)
  next
    case True
    then have d: "drop t ts = ts ! t # drop (Suc t) ts"
      by (simp add: Cons_nth_drop_Suc)
    show ?thesis
    proof (cases "vertices_density isovalue (ts ! t)")
      case None
      with True d show ?thesis by (simp add: rule_loop.simps)
    next
      case (Some m)
      with True d "1.IH" [OF True Some] show ?thesis
        by (subst rule_loop.simps) (simp add: option.map_comp comp_def split: option.splits)
    qed
  qed
qed


lemma make_triangle_Nil: "make_triangle isovalue tris [] rs = Some tris"
  by (simp add: make_triangle_def triangle_loop.simps)

lemma get_vertice_density_Nil: "get_vertice_density isovalue [] rs = Some rs"
  by (simp add: get_vertice_density_def rule_loop.simps)

subsection \<open>Voxel builder\<close>

lemma std_find_nth: "std_find xs v < length xs \<Longrightarrow> xs ! std_find xs v = v"
  by (induction xs) (auto split: if_splits)

lemma init_voxel_vertices_eq:
  "init_voxel_vertices pointcloud voxel x y z dx dy dz =
     map_option
       (\<lambda>ds. voxel\<lparr>voxel_vertices := voxel_vertices voxel @
                [Point3f x y z, Point3f (x + dx) y z, Point3f (x + dx) y (z + dz),
                 Point3f x y (z + dz), Point3f x (y + dy) z, Point3f (x + dx) (y + dy) z,
                 Point3f (x + dx) (y + dy) (z + dz), Point3f x (y + dy) (z + dz)],
              voxel_density := voxel_density voxel @ ds\<rparr>)
       (those (map (vertex_density pointcloud) (voxel_vertices voxel @
                [Point3f x y z, Point3f (x + dx) y z, Point3f (x + dx) y (z + dz),
                 Point3f x y (z + dz), Point3f x (y + dy) z, Point3f (x + dx) (y + dy) z,
                 Point3f (x + dx) (y + dy) (z + dz), Point3f x (y + dy) (z + dz)])))"
  by (simp add: init_voxel_vertices_def Let_def density_loop_those option.map_comp comp_def)

lemma density_loop_lengths:
  "density_loop pointcloud w 0 = Some v \<Longrightarrow>
     voxel_vertices v = voxel_vertices w \<and>
     length (voxel_density v) = length (voxel_density w) + length (voxel_vertices w)"
  by (auto simp: density_loop_those dest: those_length)

lemma init_voxel_vertices_lengths:
  assumes "init_voxel_vertices pointcloud \<lparr>voxel_vertices = [], voxel_density = []\<rparr>
             x y z dx dy dz = Some v"
  shows "length (voxel_vertices v) = 8" and "length (voxel_density v) = 8"
  using density_loop_lengths [OF assms [unfolded init_voxel_vertices_def Let_def]] by simp_all

subsection \<open>Tetrahedral decomposer\<close>

lemma tetra_block_eq:
  assumes "voxel_vertices v = [a0, a1, a2, a3, a4, a5, a6, a7]"
      and "voxel_density v = [d0, d1, d2, d3, d4, d5, d6, d7]"
      and "0 \<le> i0" "i0 < 8" "0 \<le> i1" "i1 < 8" "0 \<le> i2" "i2 < 8" "0 \<le> i3" "i3 < 8"
  shows "tetra_block v i0 i1 i2 i3 =
     Some \<lparr>tetra_vertices = map (\<lambda>i. [a0, a1, a2, a3, a4, a5, a6, a7] ! nat i) [i0, i1, i2, i3],
           tetra_density = map (\<lambda>i. [d0, d1, d2, d3, d4, d5, d6, d7] ! nat i) [i0, i1, i2, i3]\<rparr>"
  using assms by (simp add: tetra_block_def vec_at_def)

lemma divide_into_six_triangles_eq:
  assumes "voxel_vertices v = [a0, a1, a2, a3, a4, a5, a6, a7]"
      and "voxel_density v = [d0, d1, d2, d3, d4, d5, d6, d7]"
  shows "divide_into_six_triangles v ts = Some (ts @
     [\<lparr>tetra_vertices = [a3, a7, a4, a5], tetra_density = [d3, d7, d4, d5]\<rparr>,
      \<lparr>tetra_vertices = [a3, a7, a5, a6], tetra_density = [d3, d7, d5, d6]\<rparr>,
      \<lparr>tetra_vertices = [a3, a5, a4, a0], tetra_density = [d3, d5, d4, d0]\<rparr>,
      \<lparr>tetra_vertices = [a5, a1, a0, a3], tetra_density = [d5, d1, d0, d3]\<rparr>,
      \<lparr>tetra_vertices = [a5, a1, a3, a2], tetra_density = [d5, d1, d3, d2]\<rparr>,
      \<lparr>tetra_vertices = [a3, a5, a2, a6], tetra_density = [d3, d5, d2, d6]\<rparr>])"
  by (simp add: divide_into_six_triangles_def tetra_block_eq [OF assms])

lemma divide_into_six_triangles_total:
  assumes "length (voxel_vertices v) = 8" and "length (voxel_density v) = 8"
  shows "divide_into_six_triangles v ts \<noteq> None"
proof -
  obtain a0 a1 a2 a3 a4 a5 a6 a7 where a: "voxel_vertices v = [a0, a1, a2, a3, a4, a5, a6, a7]"
    using assms(1) by (rule length8)
  obtain d0 d1 d2 d3 d4 d5 d6 d7 where d: "voxel_density v = [d0, d1, d2, d3, d4, d5, d6, d7]"
    using assms(2) by (rule length8)
  show ?thesis by (simp add: divide_into_six_triangles_eq [OF a d])
qed

subsection \<open>Case classifier\<close>

lemma edges_rule_spec: "edges_rule a b c d = Some (spec_case_table a b c d)"
  by (cases a; cases b; cases c; cases d) (simp_all add: edges_rule_def)


lemma edges_rule_range:
  "edges_rule a b c d \<in> Some ` {[0, 0, 0, 0, 0, 0], [0, 0, 1, 0, 1, 1], [0, 1, 0, 1, 1, 0],
     [0, 1, 1, 1, 0, 1], [1, 0, 0, 1, 0, 1], [1, 0, 1, 1, 1, 0], [1, 1, 0, 0, 1, 1],
     [1, 1, 1, 0, 0, 0]}"
  by (cases a; cases b; cases c; cases d) (simp_all add: edges_rule_def)

lemma vertices_density_spec:
  assumes "4 \<le> length (tetra_density T)"
  shows "vertices_density isovalue T =
     Some (spec_case_table (tetra_density T ! 0 < isovalue) (tetra_density T ! 1 < isovalue)
            (tetra_density T ! 2 < isovalue) (tetra_density T ! 3 < isovalue))"
  using assms by (auto simp: vertices_density_def vec_at_def edges_rule_spec)

subsection \<open>Triangulator\<close>

lemma edge_points_eq:
  assumes "tetra_vertices T = [a0, a1, a2, a3]" and "tetra_density T = [d0, d1, d2, d3]"
  shows "edge_points isovalue T =
     Some [interpolation a0 a1 d0 d1 isovalue, interpolation a0 a2 d0 d2 isovalue,
           interpolation a0 a3 d0 d3 isovalue, interpolation a1 a2 d1 d2 isovalue,
           interpolation a2 a3 d2 d3 isovalue, interpolation a3 a1 d3 d1 isovalue]"
  using assms by (simp add: edge_points_def vec_at_def)

lemma make_triangle_single:
  assumes "tetra_vertices T = [a0, a1, a2, a3]" and "tetra_density T = [d0, d1, d2, d3]"
  shows "make_triangle isovalue tris [T] [m] =
     Some (tris @ emit_triangles m
        (interpolation a0 a1 d0 d1 isovalue) (interpolation a0 a2 d0 d2 isovalue)
        (interpolation a0 a3 d0 d3 isovalue) (interpolation a1 a2 d1 d2 isovalue)
        (interpolation a2 a3 d2 d3 isovalue) (interpolation a3 a1 d3 d1 isovalue))"
  by (simp add: make_triangle_def triangle_loop.simps tetra_triangles_def
      edge_points_eq [OF assms] vec_at_def)






subsection \<open>Cell traversal driver\<close>

text \<open>One cell leaves the caller's \<^verbatim>\<open>triangles\<close> as it found them.\<close>

lemma cell_body_eq:
  "cell_body isovalue pointcloud tris x y z dx dy dz =
     map_option (\<lambda>_. tris)
       (init_voxel_vertices pointcloud \<lparr>voxel_vertices = [], voxel_density = []\<rparr> x y z dx dy dz)"
proof (cases "init_voxel_vertices pointcloud \<lparr>voxel_vertices = [], voxel_density = []\<rparr>
                x y z dx dy dz")
  case None
  then show ?thesis by (simp add: cell_body_def)
next
  case (Some v)
  from divide_into_six_triangles_total [OF init_voxel_vertices_lengths [OF Some]]
  obtain ts where "divide_into_six_triangles v [] = Some ts"
    by blast
  with Some show ?thesis
    by (simp add: cell_body_def make_triangle_Nil get_vertice_density_Nil)
qed

lemma for_loop_preserves_aux:
  assumes "for_loop body max_v step v s = Some r"
  shows "(\<forall>v s s'. body v s = Some s' \<longrightarrow> s' = s) \<longrightarrow> r = s"
proof (rule for_loop.raw_induct
    [where P = "\<lambda>body max_v step v s r. (\<forall>v s s'. body v s = Some s' \<longrightarrow> s' = s) \<longrightarrow> r = s",
     OF _ assms])
  fix f and body :: "real \<Rightarrow> 'a \<Rightarrow> 'a option" and max_v step v :: real and s r :: 'a
  assume IH: "\<And>body max_v step v s r. f body max_v step v s = Some r \<Longrightarrow>
      (\<forall>v s s'. body v s = Some s' \<longrightarrow> s' = s) \<longrightarrow> r = s"
    and eq: "(if v \<le> max_v then body v s \<bind> f body max_v step (v + step) else Some s) = Some r"
  show "(\<forall>v s s'. body v s = Some s' \<longrightarrow> s' = s) \<longrightarrow> r = s"
  proof
    assume b: "\<forall>v s s'. body v s = Some s' \<longrightarrow> s' = s"
    show "r = s"
    proof (cases "v \<le> max_v")
      case False
      with eq show ?thesis by simp
    next
      case True
      with eq obtain s' where "body v s = Some s'" "f body max_v step (v + step) s' = Some r"
        by (auto simp: bind_eq_Some_conv)
      with IH b show ?thesis by blast
    qed
  qed
qed

lemma for_loop_preserves:
  assumes "for_loop body max_v step v s = Some r"
      and "\<And>v s s'. body v s = Some s' \<Longrightarrow> s' = s"
  shows "r = s"
  using for_loop_preserves_aux [OF assms(1)] assms(2) by blast

text \<open>Whatever the field, the bounds and the steps: when the traversal returns, it returns no triangle.\<close>

lemma main_marching_empty:
  "main_marching isovalue pc min_x min_y min_z max_x max_y max_z dx dy dz = Some r \<Longrightarrow> r = []"
  unfolding main_marching_def Let_def
  by (erule for_loop_preserves, erule for_loop_preserves, erule for_loop_preserves)
     (auto simp: cell_body_eq)

lemma vertex_density_pc_corner:
  "vertex_density pc_corner (Point3f x y z) =
     (if x = 1 / 2 \<and> y = 1 / 2 \<and> z = 1 / 2 then None
      else if x = 0 \<and> y = 0 \<and> z = 0 then Some 0 else Some 1)"
  by (auto simp: vertex_density_def density_index_def pc_corner_def vec_at_def)


section \<open>The claims\<close>

subsection \<open>Voxel builder\<close>

text \<open>
  Claim C9. For every cell origin \<open>(x, y, z)\<close> and extents \<open>(dx, dy, dz)\<close> the voxel builder,
  run on a fresh voxel, leaves exactly the eight corners
  \<open>v0 = (x, y, z)\<close>, \<open>v1 = (x + dx, y, z)\<close>, \<open>v2 = (x + dx, y, z + dz)\<close>, \<open>v3 = (x, y, z + dz)\<close>,
  \<open>v4 = (x, y + dy, z)\<close>, \<open>v5 = (x + dx, y + dy, z)\<close>, \<open>v6 = (x + dx, y + dy, z + dz)\<close>,
  \<open>v7 = (x, y + dy, z + dz)\<close> in the voxel, in this order, with one density for each; it has
  a result whenever each of its eight density reads is inside the density vector.
\<close>

theorem init_voxel_vertices_corners:
  "init_voxel_vertices pointcloud \<lparr>voxel_vertices = [], voxel_density = []\<rparr> x y z dx dy dz =
     map_option
       (\<lambda>ds. \<lparr>voxel_vertices =
                [Point3f x y z, Point3f (x + dx) y z, Point3f (x + dx) y (z + dz),
                 Point3f x y (z + dz), Point3f x (y + dy) z, Point3f (x + dx) (y + dy) z,
                 Point3f (x + dx) (y + dy) (z + dz), Point3f x (y + dy) (z + dz)],
              voxel_density = ds\<rparr>)
       (those (map (vertex_density pointcloud)
                [Point3f x y z, Point3f (x + dx) y z, Point3f (x + dx) y (z + dz),
                 Point3f x y (z + dz), Point3f x (y + dy) z, Point3f (x + dx) (y + dy) z,
                 Point3f (x + dx) (y + dy) (z + dz), Point3f x (y + dy) (z + dz)]))"
  by (simp add: init_voxel_vertices_eq option.map_comp comp_def)

text \<open>
  Claim C10. When a corner position matches a sample of the field, at index \<open>idx\<close> of the
  positions, the density read is the one at index \<open>idx - 1\<close>. When the matched sample is the
  first one, that is index \<open>-1\<close>, outside the density vector: the lookup has no value, and
  neither has the voxel builder.
\<close>

theorem density_index_off_by_one:
  "(std_find (pc_vertices pointcloud) vertex = idx \<and> idx < length (pc_vertices pointcloud) \<longrightarrow>
      pc_vertices pointcloud ! idx = vertex \<and>
      density_index pointcloud vertex = Some (int idx - 1) \<and>
      vertex_density pointcloud vertex = vec_at (pc_density pointcloud) (int idx - 1)) \<and>
   std_find (pc_vertices pc_first) (Point3f 0 0 0) = 0 \<and>
   density_index pc_first (Point3f 0 0 0) = Some (- 1) \<and>
   vertex_density pc_first (Point3f 0 0 0) = None \<and>
   init_voxel_vertices pc_first \<lparr>voxel_vertices = [], voxel_density = []\<rparr> 0 0 0 1 1 1 = None"
proof -
  have g: "std_find (pc_vertices pointcloud) vertex = idx \<and> idx < length (pc_vertices pointcloud) \<longrightarrow>
      pc_vertices pointcloud ! idx = vertex \<and>
      density_index pointcloud vertex = Some (int idx - 1) \<and>
      vertex_density pointcloud vertex = vec_at (pc_density pointcloud) (int idx - 1)"
    by (auto simp: density_index_def vertex_density_def Let_def std_find_nth)
  have i: "density_index pc_first (Point3f 0 0 0) = Some (- 1)"
    by (simp add: density_index_def pc_first_def)
  have v: "vertex_density pc_first (Point3f 0 0 0) = None"
    by (simp add: vertex_density_def i) (simp add: vec_at_def)
  have n: "init_voxel_vertices pc_first \<lparr>voxel_vertices = [], voxel_density = []\<rparr> 0 0 0 1 1 1 = None"
    by (simp add: init_voxel_vertices_eq v)
  show ?thesis using g i v n by (simp add: pc_first_def)
qed

theorem density_index_off_by_one_witness:
  "std_find (pc_vertices pc_second) (Point3f 0 0 0) = 1 \<and> 1 < length (pc_vertices pc_second) \<and>
   pc_vertices pc_second ! 1 = Point3f 0 0 0 \<and>
   density_index pc_second (Point3f 0 0 0) = Some 0 \<and>
   vertex_density pc_second (Point3f 0 0 0) = Some (9 / 10)"
proof -
  have h: "std_find (pc_vertices pc_second) (Point3f 0 0 0) = 1 \<and> 1 < length (pc_vertices pc_second)"
    by (simp add: pc_second_def)
  have "vec_at (pc_density pc_second) (int 1 - 1) = Some (9 / 10)"
    by (simp add: pc_second_def vec_at_def)
  with h density_index_off_by_one [of pc_second "Point3f 0 0 0" 1] show ?thesis by simp
qed

text \<open>
  Claim C4, evaluated where it fails. The second sample of \<open>pc_second\<close> is the origin, with
  density \<open>1/10\<close>; the corner \<open>v0\<close> of the unit cell at the origin is that position, and the
  density it is given is \<open>9/10\<close>, the one of the first sample. The seven other corners match
  no sample and are given 1.
\<close>

theorem init_voxel_vertices_previous_density:
  "init_voxel_vertices pc_second \<lparr>voxel_vertices = [], voxel_density = []\<rparr> 0 0 0 1 1 1 =
     Some \<lparr>voxel_vertices =
             [Point3f 0 0 0, Point3f 1 0 0, Point3f 1 0 1, Point3f 0 0 1,
              Point3f 0 1 0, Point3f 1 1 0, Point3f 1 1 1, Point3f 0 1 1],
           voxel_density = [9 / 10, 1, 1, 1, 1, 1, 1, 1]\<rparr> \<and>
   pc_vertices pc_second ! 1 = Point3f 0 0 0 \<and> pc_density pc_second ! 1 = 1 / 10"
  by (simp add: init_voxel_vertices_eq)
     (simp add: vertex_density_def density_index_def pc_second_def vec_at_def)

subsection \<open>Tetrahedral decomposer\<close>

text \<open>
  Claim C5. For a voxel with its eight corners and eight densities the decomposer builds
  exactly six tetrahedra, whose \<open>(p0, p1, p2, p3)\<close> are the corners, with their densities,
  of indices \<open>(3,7,4,5)\<close>, \<open>(3,7,5,6)\<close>, \<open>(3,5,4,0)\<close>, \<open>(5,1,0,3)\<close>, \<open>(5,1,3,2)\<close>, \<open>(3,5,2,6)\<close>, in
  this order.
\<close>

theorem divide_into_six_triangles_assignment:
  assumes "voxel_vertices v = [a0, a1, a2, a3, a4, a5, a6, a7]"
      and "voxel_density v = [d0, d1, d2, d3, d4, d5, d6, d7]"
  shows "divide_into_six_triangles v ts = Some (ts @
     [\<lparr>tetra_vertices = [a3, a7, a4, a5], tetra_density = [d3, d7, d4, d5]\<rparr>,
      \<lparr>tetra_vertices = [a3, a7, a5, a6], tetra_density = [d3, d7, d5, d6]\<rparr>,
      \<lparr>tetra_vertices = [a3, a5, a4, a0], tetra_density = [d3, d5, d4, d0]\<rparr>,
      \<lparr>tetra_vertices = [a5, a1, a0, a3], tetra_density = [d5, d1, d0, d3]\<rparr>,
      \<lparr>tetra_vertices = [a5, a1, a3, a2], tetra_density = [d5, d1, d3, d2]\<rparr>,
      \<lparr>tetra_vertices = [a3, a5, a2, a6], tetra_density = [d3, d5, d2, d6]\<rparr>])"
  using assms by (rule divide_into_six_triangles_eq)

theorem divide_into_six_triangles_assignment_witness:
  "voxel_vertices voxel_corner =
     [Point3f 0 0 0, Point3f 1 0 0, Point3f 1 0 1, Point3f 0 0 1,
      Point3f 0 1 0, Point3f 1 1 0, Point3f 1 1 1, Point3f 0 1 1] \<and>
   voxel_density voxel_corner = [0, 1, 1, 1, 1, 1, 1, 1] \<and>
   divide_into_six_triangles voxel_corner [] = Some
     [\<lparr>tetra_vertices = [Point3f 0 0 1, Point3f 0 1 1, Point3f 0 1 0, Point3f 1 1 0],
       tetra_density = [1, 1, 1, 1]\<rparr>,
      \<lparr>tetra_vertices = [Point3f 0 0 1, Point3f 0 1 1, Point3f 1 1 0, Point3f 1 1 1],
       tetra_density = [1, 1, 1, 1]\<rparr>,
      \<lparr>tetra_vertices = [Point3f 0 0 1, Point3f 1 1 0, Point3f 0 1 0, Point3f 0 0 0],
       tetra_density = [1, 1, 1, 0]\<rparr>,
      \<lparr>tetra_vertices = [Point3f 1 1 0, Point3f 1 0 0, Point3f 0 0 0, Point3f 0 0 1],
       tetra_density = [1, 1, 0, 1]\<rparr>,
      \<lparr>tetra_vertices = [Point3f 1 1 0, Point3f 1 0 0, Point3f 0 0 1, Point3f 1 0 1],
       tetra_density = [1, 1, 1, 1]\<rparr>,
      \<lparr>tetra_vertices = [Point3f 0 0 1, Point3f 1 1 0, Point3f 1 0 1, Point3f 1 1 1],
       tetra_density = [1, 1, 1, 1]\<rparr>]"
proof -
  have a: "voxel_vertices voxel_corner =
     [Point3f 0 0 0, Point3f 1 0 0, Point3f 1 0 1, Point3f 0 0 1,
      Point3f 0 1 0, Point3f 1 1 0, Point3f 1 1 1, Point3f 0 1 1]"
    and d: "voxel_density voxel_corner = [0, 1, 1, 1, 1, 1, 1, 1]"
    by (simp_all add: voxel_corner_def)
  from a d divide_into_six_triangles_assignment [OF a d, of "[]"] show ?thesis by simp
qed

subsection \<open>Case classifier\<close>

text \<open>
  Claim C2. With \<open>inside = density < isovalue\<close> for \<open>p0 .. p3\<close>, the mask that
  \<open>get_vertice_density\<close> pushes for a tetrahedron is the row of the table of section 4.3 for
  its four booleans, for each of the 16 combinations: the masks pushed for a vector of
  tetrahedra are the rows for its elements, in order, behind the masks already there.
\<close>

theorem get_vertice_density_case_table:
  assumes "\<forall>T \<in> set ts. 4 \<le> length (tetra_density T)"
  shows "get_vertice_density isovalue ts rules =
     Some (rules @
       map (\<lambda>T. spec_case_table (tetra_density T ! 0 < isovalue) (tetra_density T ! 1 < isovalue)
                  (tetra_density T ! 2 < isovalue) (tetra_density T ! 3 < isovalue)) ts)"
proof -
  have "those (map (vertices_density isovalue) ts) =
     Some (map (\<lambda>T. spec_case_table (tetra_density T ! 0 < isovalue) (tetra_density T ! 1 < isovalue)
                  (tetra_density T ! 2 < isovalue) (tetra_density T ! 3 < isovalue)) ts)"
    using assms by (intro those_map_Some vertices_density_spec) blast
  then show ?thesis
    by (simp add: get_vertice_density_def rule_loop_those)
qed

theorem get_vertice_density_case_table_witness:
  "4 \<le> length (tetra_density tetra_inner) \<and> 4 \<le> length (tetra_density tetra_touch) \<and>
   get_vertice_density (1 / 2) [tetra_inner, tetra_touch] [] =
     Some [[1, 1, 1, 0, 0, 0], [1, 1, 1, 0, 0, 0]]"
proof -
  have h: "\<forall>T \<in> set [tetra_inner, tetra_touch]. 4 \<le> length (tetra_density T)"
    by (simp add: tetra_inner_def tetra_touch_def)
  from h get_vertice_density_case_table [OF h, of "1 / 2" "[]"] show ?thesis
    by (simp add: tetra_inner_def tetra_touch_def)
qed

text \<open>
  Claim C8. The case table is point-symmetric: a pattern of four booleans and the pattern
  with all four flipped have the same mask (and every pattern has one).
\<close>

theorem edges_rule_point_symmetric:
  "edges_rule (\<not> a) (\<not> b) (\<not> c) (\<not> d) = edges_rule a b c d \<and> edges_rule a b c d \<noteq> None"
  by (cases a; cases b; cases c; cases d) (simp_all add: edges_rule_def)

subsection \<open>Triangulator\<close>

text \<open>
  Claim C3. For a tetrahedron with its four points and densities and each of the eight
  masks of the case table, \<open>make_triangle\<close> appends exactly the triangles of the recipe of
  section 4.4, on the edge points \<open>p01, p02, p03, p12, p23, p31\<close>: none for 000000, one for
  001011, 010110, 100101 and 111000, two for 011101, 101110 and 110011. The case table has
  no other mask.
\<close>

theorem make_triangle_recipe:
  assumes "tetra_vertices T = [a0, a1, a2, a3]" and "tetra_density T = [d0, d1, d2, d3]"
  shows "let p01 = interpolation a0 a1 d0 d1 isovalue;
       p02 = interpolation a0 a2 d0 d2 isovalue;
       p03 = interpolation a0 a3 d0 d3 isovalue;
       p12 = interpolation a1 a2 d1 d2 isovalue;
       p23 = interpolation a2 a3 d2 d3 isovalue;
       p31 = interpolation a3 a1 d3 d1 isovalue
   in make_triangle isovalue tris [T] [[0, 0, 0, 0, 0, 0]] = Some tris \<and>
      make_triangle isovalue tris [T] [[0, 0, 1, 0, 1, 1]] =
        Some (tris @ [\<lparr>tri_vertices = [p03, p23, p31]\<rparr>]) \<and>
      make_triangle isovalue tris [T] [[0, 1, 0, 1, 1, 0]] =
        Some (tris @ [\<lparr>tri_vertices = [p02, p12, p23]\<rparr>]) \<and>
      make_triangle isovalue tris [T] [[0, 1, 1, 1, 0, 1]] =
        Some (tris @ [\<lparr>tri_vertices = [p02, p03, p31]\<rparr>, \<lparr>tri_vertices = [p02, p31, p12]\<rparr>]) \<and>
      make_triangle isovalue tris [T] [[1, 0, 0, 1, 0, 1]] =
        Some (tris @ [\<lparr>tri_vertices = [p01, p12, p31]\<rparr>]) \<and>
      make_triangle isovalue tris [T] [[1, 0, 1, 1, 1, 0]] =
        Some (tris @ [\<lparr>tri_vertices = [p01, p03, p23]\<rparr>, \<lparr>tri_vertices = [p01, p12, p23]\<rparr>]) \<and>
      make_triangle isovalue tris [T] [[1, 1, 0, 0, 1, 1]] =
        Some (tris @ [\<lparr>tri_vertices = [p01, p02, p31]\<rparr>, \<lparr>tri_vertices = [p02, p23, p31]\<rparr>]) \<and>
      make_triangle isovalue tris [T] [[1, 1, 1, 0, 0, 0]] =
        Some (tris @ [\<lparr>tri_vertices = [p01, p02, p03]\<rparr>]) \<and>
      edges_rule a b c d \<in> Some ` {[0, 0, 0, 0, 0, 0], [0, 0, 1, 0, 1, 1], [0, 1, 0, 1, 1, 0],
        [0, 1, 1, 1, 0, 1], [1, 0, 0, 1, 0, 1], [1, 0, 1, 1, 1, 0], [1, 1, 0, 0, 1, 1],
        [1, 1, 1, 0, 0, 0]}"
  unfolding Let_def make_triangle_single [OF assms]
  using edges_rule_range [of a b c d] by (simp add: emit_triangles_def)

theorem make_triangle_recipe_witness:
  "tetra_vertices tetra_inner = [Point3f 0 0 0, Point3f 1 0 0, Point3f 0 1 0, Point3f 0 0 1] \<and>
   tetra_density tetra_inner = [0, 1, 1, 1] \<and>
   make_triangle (1 / 2) [] [tetra_inner] [[1, 1, 1, 0, 0, 0]] =
     Some [\<lparr>tri_vertices = [Some (Point3f (1 / 2) 0 0), Some (Point3f 0 (1 / 2) 0),
                             Some (Point3f 0 0 (1 / 2))]\<rparr>] \<and>
   make_triangle (1 / 2) [] [tetra_inner] [[0, 1, 1, 1, 0, 1]] =
     Some [\<lparr>tri_vertices = [Some (Point3f 0 (1 / 2) 0), Some (Point3f 0 0 (1 / 2)), None]\<rparr>,
           \<lparr>tri_vertices = [Some (Point3f 0 (1 / 2) 0), None, None]\<rparr>]"
proof -
  have a: "tetra_vertices tetra_inner = [Point3f 0 0 0, Point3f 1 0 0, Point3f 0 1 0, Point3f 0 0 1]"
    and d: "tetra_density tetra_inner = [0, 1, 1, 1]"
    by (simp_all add: tetra_inner_def)
  from a d make_triangle_recipe [OF a d, of "1 / 2" "[]" False False False False]
  show ?thesis by (simp add: Let_def interpolation_def)
qed




subsection \<open>Cell traversal driver\<close>

text \<open>
  Claim C1, evaluated where it fails. In the field \<open>pc_corner\<close> the unit cell at the origin
  is the voxel \<open>voxel_corner\<close>: its corner \<open>v0\<close> is below the isovalue \<open>1/2\<close> and the seven
  others are above. The pipeline run on that voxel, each stage given the vector the stage
  before it filled, emits two triangles, from the two tetrahedra that contain \<open>v0\<close>. The
  traversal of \<open>main\<close> over the bounding box of the field returns the empty vector.
\<close>

theorem main_marching_discards_triangles:
  "init_voxel_vertices pc_corner \<lparr>voxel_vertices = [], voxel_density = []\<rparr> 0 0 0 1 1 1 =
     Some voxel_corner \<and>
   (case divide_into_six_triangles voxel_corner [] of
      None \<Rightarrow> False
    | Some cur_six_tetrahedrons \<Rightarrow>
        (case get_vertice_density (1 / 2) cur_six_tetrahedrons [] of
           None \<Rightarrow> False
         | Some cur_six_edges_rule \<Rightarrow>
             cur_six_edges_rule =
               [[0, 0, 0, 0, 0, 0], [0, 0, 0, 0, 0, 0], [0, 0, 1, 0, 1, 1],
                [0, 1, 0, 1, 1, 0], [0, 0, 0, 0, 0, 0], [0, 0, 0, 0, 0, 0]] \<and>
             make_triangle (1 / 2) [] cur_six_tetrahedrons cur_six_edges_rule =
               Some [\<lparr>tri_vertices = [Some (Point3f 0 0 (1 / 2)), Some (Point3f 0 (1 / 2) 0),
                                       Some (Point3f (1 / 2) (1 / 2) 0)]\<rparr>,
                     \<lparr>tri_vertices = [Some (Point3f (1 / 2) (1 / 2) 0), Some (Point3f (1 / 2) 0 0),
                                       Some (Point3f 0 0 (1 / 2))]\<rparr>])) \<and>
   main_marching (1 / 2) pc_corner 0 0 0 (1 / 2) (1 / 2) (1 / 2) 1 1 1 = Some []"
proof (intro conjI)
  show "init_voxel_vertices pc_corner \<lparr>voxel_vertices = [], voxel_density = []\<rparr> 0 0 0 1 1 1 =
     Some voxel_corner"
    by (simp add: init_voxel_vertices_eq vertex_density_pc_corner voxel_corner_def)
next
  have a: "voxel_vertices voxel_corner =
     [Point3f 0 0 0, Point3f 1 0 0, Point3f 1 0 1, Point3f 0 0 1,
      Point3f 0 1 0, Point3f 1 1 0, Point3f 1 1 1, Point3f 0 1 1]"
    and d: "voxel_density voxel_corner = [0, 1, 1, 1, 1, 1, 1, 1]"
    by (simp_all add: voxel_corner_def)
  show "case divide_into_six_triangles voxel_corner [] of
      None \<Rightarrow> False
    | Some cur_six_tetrahedrons \<Rightarrow>
        (case get_vertice_density (1 / 2) cur_six_tetrahedrons [] of
           None \<Rightarrow> False
         | Some cur_six_edges_rule \<Rightarrow>
             cur_six_edges_rule =
               [[0, 0, 0, 0, 0, 0], [0, 0, 0, 0, 0, 0], [0, 0, 1, 0, 1, 1],
                [0, 1, 0, 1, 1, 0], [0, 0, 0, 0, 0, 0], [0, 0, 0, 0, 0, 0]] \<and>
             make_triangle (1 / 2) [] cur_six_tetrahedrons cur_six_edges_rule =
               Some [\<lparr>tri_vertices = [Some (Point3f 0 0 (1 / 2)), Some (Point3f 0 (1 / 2) 0),
                                       Some (Point3f (1 / 2) (1 / 2) 0)]\<rparr>,
                     \<lparr>tri_vertices = [Some (Point3f (1 / 2) (1 / 2) 0), Some (Point3f (1 / 2) 0 0),
                                       Some (Point3f 0 0 (1 / 2))]\<rparr>])"
    by (simp add: divide_into_six_triangles_eq [OF a d] get_vertice_density_def rule_loop_those
        vertices_density_def edges_rule_def vec_at_def)
       (simp add: make_triangle_def triangle_loop.simps tetra_triangles_def edge_points_def
        vec_at_def emit_triangles_def interpolation_def)
next
  show "main_marching (1 / 2) pc_corner 0 0 0 (1 / 2) (1 / 2) (1 / 2) 1 1 1 = Some []"
    by (simp add: main_marching_def for_loop.simps cell_body_eq init_voxel_vertices_eq
        vertex_density_pc_corner)
qed

end
